theory Spec2Isabelle
  imports Main "HOL-Library.Word"
begin

unbundle bit_operations_syntax

section \<open>JavaScript values\<close>

text \<open>
  \<^verbatim>\<open>backend/server.js\<close> is one Express route, \<^verbatim>\<open>POST /analyze\<close>. Everything it
  touches is JSON data: the parsed request body, the argument object of
  \<^verbatim>\<open>client.responses.create\<close>, the response envelope of the provider and the value
  handed to \<^verbatim>\<open>res.json\<close>.

  A JavaScript string is a sequence of UTF-16 code units and \<^verbatim>\<open>.length\<close> counts
  them, so a string is a list of 16-bit words. A number is an IEEE 754 double, kept as
  its 64-bit pattern; the handler never computes with numbers, it only tests them for
  truthiness.
\<close>

type_synonym ustring = "16 word list"

definition asc :: "string \<Rightarrow> ustring" where
  "asc s = map (\<lambda>c. word_of_nat (of_char c)) s"

datatype jsval =
    JUndefined
  | JNull
  | JBool bool
  | JNum "64 word"
  | JStr ustring
  | JArr "jsval list"
  | JObj "(ustring \<times> jsval) list"

definition str :: "string \<Rightarrow> jsval" where
  "str s = JStr (asc s)"

definition obj :: "(string \<times> jsval) list \<Rightarrow> jsval" where
  "obj kvs = JObj (map (\<lambda>(k, v). (asc k, v)) kvs)"

text \<open>\<^verbatim>\<open>typeof v\<close>.\<close>

fun typeof :: "jsval \<Rightarrow> ustring" where
  "typeof JUndefined = asc ''undefined''"
| "typeof JNull = asc ''object''"
| "typeof (JBool b) = asc ''boolean''"
| "typeof (JNum n) = asc ''number''"
| "typeof (JStr s) = asc ''string''"
| "typeof (JArr xs) = asc ''object''"
| "typeof (JObj kvs) = asc ''object''"

text \<open>
  Truthiness (\<^verbatim>\<open>!v\<close> is its negation): \<^verbatim>\<open>undefined\<close>, \<^verbatim>\<open>null\<close>, \<^verbatim>\<open>false\<close>,
  \<^verbatim>\<open>+0\<close>, \<^verbatim>\<open>-0\<close>, \<^verbatim>\<open>NaN\<close> and the empty string are falsy, every other value
  is truthy.
\<close>

definition number_is_zero :: "64 word \<Rightarrow> bool" where
  "number_is_zero w \<longleftrightarrow> w AND 0x7FFFFFFFFFFFFFFF = 0"

definition number_is_nan :: "64 word \<Rightarrow> bool" where
  "number_is_nan w \<longleftrightarrow>
     w AND 0x7FF0000000000000 = 0x7FF0000000000000 \<and> w AND 0x000FFFFFFFFFFFFF \<noteq> 0"

fun truthy :: "jsval \<Rightarrow> bool" where
  "truthy JUndefined = False"
| "truthy JNull = False"
| "truthy (JBool b) = b"
| "truthy (JNum n) = (\<not> number_is_zero n \<and> \<not> number_is_nan n)"
| "truthy (JStr s) = (s \<noteq> [])"
| "truthy (JArr xs) = True"
| "truthy (JObj kvs) = True"

fun nullish :: "jsval \<Rightarrow> bool" where
  "nullish JUndefined = True"
| "nullish JNull = True"
| "nullish _ = False"

text \<open>
  Property keys are strings; \<^verbatim>\<open>v[0]\<close> reads the key \<^verbatim>\<open>"0"\<close>. A key is an index
  when it is the canonical decimal form of a natural number.
\<close>

definition digit_value :: "16 word \<Rightarrow> nat option" where
  "digit_value c = (if 0x30 \<le> c \<and> c \<le> 0x39 then Some (unat c - 48) else None)"

fun decimal :: "ustring \<Rightarrow> nat \<Rightarrow> nat option" where
  "decimal [] acc = Some acc"
| "decimal (c # cs) acc =
     (case digit_value c of None \<Rightarrow> None | Some d \<Rightarrow> decimal cs (10 * acc + d))"

definition array_index :: "ustring \<Rightarrow> nat option" where
  "array_index k =
     (if k = [] then None
      else if hd k = 0x30 \<and> tl k \<noteq> [] then None
      else decimal k 0)"

text \<open>
  \<open>get_prop v k\<close> is the value of \<^verbatim>\<open>v[k]\<close> for a \<open>v\<close> that is neither
  \<^verbatim>\<open>undefined\<close> nor \<^verbatim>\<open>null\<close>: the property of an object, the element of an array,
  the one-unit string at an index of a string, and \<^verbatim>\<open>undefined\<close> wherever there is
  no such property. Members inherited from the built-in prototypes (and \<^verbatim>\<open>length\<close>,
  which the handler reads of a string only, see \<open>string_length\<close>) are not data and are
  left out; none of the keys the handler reads (\<^verbatim>\<open>imageBase64\<close>, \<^verbatim>\<open>output\<close>,
  \<^verbatim>\<open>content\<close>, \<^verbatim>\<open>type\<close>, \<^verbatim>\<open>text\<close>, \<^verbatim>\<open>0\<close>) names one.
\<close>

fun get_prop :: "jsval \<Rightarrow> ustring \<Rightarrow> jsval" where
  "get_prop (JObj kvs) k = (case map_of kvs k of Some v \<Rightarrow> v | None \<Rightarrow> JUndefined)"
| "get_prop (JArr xs) k =
     (case array_index k of
        Some i \<Rightarrow> (if i < length xs then xs ! i else JUndefined)
      | None \<Rightarrow> JUndefined)"
| "get_prop (JStr s) k =
     (case array_index k of
        Some i \<Rightarrow> (if i < length s then JStr [s ! i] else JUndefined)
      | None \<Rightarrow> JUndefined)"
| "get_prop _ k = JUndefined"

text \<open>What the code can throw: reading a property of \<^verbatim>\<open>undefined\<close> or \<^verbatim>\<open>null\<close>
  is a \<^verbatim>\<open>TypeError\<close>, \<^verbatim>\<open>JSON.parse\<close> throws a \<^verbatim>\<open>SyntaxError\<close>, and the provider's
  client rejects with an error object of its own.\<close>

datatype thrown = TypeError | SyntaxError | OtherError jsval

text \<open>\<^verbatim>\<open>v.k\<close> throws on \<^verbatim>\<open>undefined\<close> and \<^verbatim>\<open>null\<close>; \<^verbatim>\<open>v?.k\<close> is
  \<^verbatim>\<open>undefined\<close> there.\<close>

definition get_member :: "jsval \<Rightarrow> ustring \<Rightarrow> thrown + jsval" where
  "get_member v k = (if nullish v then Inl TypeError else Inr (get_prop v k))"

definition opt_member :: "jsval \<Rightarrow> ustring \<Rightarrow> jsval" where
  "opt_member v k = (if nullish v then JUndefined else get_prop v k)"

text \<open>\<^verbatim>\<open>v.length\<close> of a string, in code units. The handler reads it only after
  \<^verbatim>\<open>typeof v\<close> was found to be \<^verbatim>\<open>"string"\<close>.\<close>

fun string_length :: "jsval \<Rightarrow> nat" where
  "string_length (JStr s) = length s"
| "string_length _ = 0"

section \<open>The prompt\<close>

text \<open>
  \<^verbatim>\<open>buildPhotoPrompt\<close> returns a template literal without substitutions, trimmed.
  The literal is given line by line; the lines are separated by a line feed, and the
  literal begins and ends with one (its first and last line are empty). Code units
  beyond ASCII are written as numbers.
\<close>

definition photo_prompt_literal :: "ustring list" where
  \<open>photo_prompt_literal =
   [[],
    asc ''Eres un jurado experto en fotograf'' @ [0xED] @ asc ''a digital y creatividad visual.'',
    [],
    asc ''AN'' @ [0xC1] @ asc ''LISIS:'',
    asc ''1) COMPOSICI'' @ [0xD3] @ asc ''N ESPACIAL:'',
    asc ''   - Regla de los tercios (distribuci'' @ [0xF3]
      @ asc ''n de masas, sujeto en puntos fuertes, equilibrio visual).'',
    asc ''   - Posible uso de proporci'' @ [0xF3] @ asc ''n '' @ [0xE1] @ asc ''urea / espiral ''
      @ [0xE1] @ asc ''urea (aunque sea aproximada).'',
    asc ''   - Horizontes: si aparecen, si est'' @ [0xE1]
      @ asc ''n alineados, en tercio superior/inferior, etc.'',
    asc ''   - L'' @ [0xED]
      @ asc ''neas de fuga y direccionales (leading lines), regla de la mirada.'',
    asc ''   - Equilibrio entre primer plano, fondo, simplicidad vs. saturaci'' @ [0xF3]
      @ asc ''n.'',
    [],
    asc ''2) CREATIVIDAD DIGITAL:'',
    asc ''   - Novedad del punto de vista, encuadre, iluminaci'' @ [0xF3] @ asc ''n, color.'',
    asc ''   - Capacidad de la imagen para sugerir una historia, una emoci'' @ [0xF3]
      @ asc ''n o un simbolismo.'',
    asc ''   - Uso original de las tecnolog'' @ [0xED] @ asc ''as digitales (edici'' @ [0xF3]
      @ asc ''n sutil o evidente, filtros, efectos, collage, etc.).'',
    [],
    asc ''3) CALIDAD T'' @ [0xC9] @ asc ''CNICA B'' @ [0xC1] @ asc ''SICA (percepci'' @ [0xF3]
      @ asc ''n subjetiva):'',
    asc ''   - Enfoque/aparente nitidez del motivo principal.'',
    asc ''   - Gesti'' @ [0xF3]
      @ asc ''n de la luz (altos contrastes, contraluces, zonas quemadas u oscuras).'',
    asc ''   - Color (armon'' @ [0xED] @ asc ''a crom'' @ [0xE1]
      @ asc ''tica, uso intencional del color, dominante crom'' @ [0xE1] @ asc ''tica).'',
    [],
    asc ''4) AJUSTE A LA SIGUIENTE DEFINICI'' @ [0xD3] @ asc ''N DE CREATIVIDAD DIGITAL:'',
    asc ''   "Digital creativity is a multifaceted process in which new and valuable ideas, products, ''
      @ asc ''or solutions are generated through the use of digital technologies. This process involves ''
      @ asc ''the interaction between cognitive and socio-emotional skills, technological tools, and a ''
      @ asc ''collaborative environment, facilitating both self-expression and creative problem solving ''
      @ asc ''in various contexts (educational, professional, cultural, and social)."'',
    [],
    asc ''ESCALA:'',
    asc ''- Usa escala 0'' @ [0x2013] @ asc ''10.'',
    asc ''- 5 = fotograf'' @ [0xED] @ asc ''a correcta pero convencional.'',
    asc ''- 8'' @ [0x2013] @ asc ''10 = fotograf'' @ [0xED]
      @ asc ''a claramente creativa y muy bien compuesta para contexto educativo.'',
    asc ''- <4 = fotograf'' @ [0xED]
      @ asc ''a pobre en creatividad visual o claramente descuidada en composici'' @ [0xF3]
      @ asc ''n.'',
    [],
    asc ''SALIDA:'',
    asc ''Devuelve EXCLUSIVAMENTE un JSON V'' @ [0xC1]
      @ asc ''LIDO que siga EXACTAMENTE este esquema:'',
    [],
    asc ''{'',
    asc ''  "overall_score": number,           // 0'' @ [0x2013] @ asc ''10, s'' @ [0xED]
      @ asc ''ntesis global'',
    asc ''  "creativity_score": number,        // 0'' @ [0x2013] @ asc ''10, creatividad/expresi''
      @ [0xF3] @ asc ''n'',
    asc ''  "composition_score": number,       // 0'' @ [0x2013] @ asc ''10, composici'' @ [0xF3]
      @ asc ''n y encuadre'',
    asc ''  "technical_score": number,         // 0'' @ [0x2013] @ asc ''10, calidad t'' @ [0xE9]
      @ asc ''cnica b'' @ [0xE1] @ asc ''sica'',
    asc ''  "rules": {'',
    asc ''    "rule_of_thirds": {'',
    asc ''      "applied": boolean,'',
    asc ''      "score": number,               // 0'' @ [0x2013] @ asc ''10, uso de tercios'',
    asc ''      "comment": string'',
    asc ''    },'',
    asc ''    "golden_ratio": {'',
    asc ''      "applied": boolean,'',
    asc ''      "score": number,'',
    asc ''      "comment": string'',
    asc ''    },'',
    asc ''    "leading_lines": {'',
    asc ''      "applied": boolean,'',
    asc ''      "score": number,'',
    asc ''      "comment": string'',
    asc ''    },'',
    asc ''    "light_and_shadow": {'',
    asc ''      "score": number,               // 0'' @ [0x2013]
      @ asc ''10, calidad expresiva de luces y sombras'',
    asc ''      "comment": string'',
    asc ''    }'',
    asc ''  },'',
    asc ''  "text_explanation": string         // explicaci'' @ [0xF3] @ asc ''n breve (5''
      @ [0x2013] @ asc ''8 l'' @ [0xED] @ asc ''neas) de la valoraci'' @ [0xF3]
      @ asc ''n global'',
    asc ''}'',
    [],
    asc ''NO a'' @ [0xF1] @ asc ''adas ning'' @ [0xFA]
      @ asc ''n texto fuera del JSON. NO expliques la escala fuera del JSON. SOLO el JSON.'',
    []]\<close>

definition join_lines :: "ustring list \<Rightarrow> ustring" where
  "join_lines ls = (case ls of [] \<Rightarrow> [] | l # rest \<Rightarrow> l @ concat (map (\<lambda>x. 0x0A # x) rest))"

text \<open>\<^verbatim>\<open>String.prototype.trim\<close> removes white space and line terminators at both
  ends.\<close>

definition is_white_space :: "16 word \<Rightarrow> bool" where
  "is_white_space c \<longleftrightarrow>
     c \<in> set [0x09, 0x0A, 0x0B, 0x0C, 0x0D, 0x20, 0xA0, 0x1680,
              0x2000, 0x2001, 0x2002, 0x2003, 0x2004, 0x2005, 0x2006, 0x2007, 0x2008, 0x2009,
              0x200A, 0x2028, 0x2029, 0x202F, 0x205F, 0x3000, 0xFEFF]"

definition trim :: "ustring \<Rightarrow> ustring" where
  "trim s = rev (dropWhile is_white_space (rev (dropWhile is_white_space s)))"

definition buildPhotoPrompt :: ustring where
  "buildPhotoPrompt = trim (join_lines photo_prompt_literal)"

section \<open>The model call\<close>

text \<open>The schema object of \<^verbatim>\<open>response_format.json_schema.schema\<close>, as the object
  literal of the handler has it.\<close>

definition photo_schema :: jsval where
  "photo_schema =
     obj [
       (''type'', str ''object''),
       (''properties'', obj [
          (''overall_score'', obj [(''type'', str ''number'')]),
          (''creativity_score'', obj [(''type'', str ''number'')]),
          (''composition_score'', obj [(''type'', str ''number'')]),
          (''technical_score'', obj [(''type'', str ''number'')]),
          (''rules'', obj [
             (''type'', str ''object''),
             (''properties'', obj [
                (''rule_of_thirds'', obj [
                   (''type'', str ''object''),
                   (''properties'', obj [
                      (''applied'', obj [(''type'', str ''boolean'')]),
                      (''score'', obj [(''type'', str ''number'')]),
                      (''comment'', obj [(''type'', str ''string'')])]),
                   (''required'', JArr [str ''applied'', str ''score'', str ''comment''])]),
                (''golden_ratio'', obj [
                   (''type'', str ''object''),
                   (''properties'', obj [
                      (''applied'', obj [(''type'', str ''boolean'')]),
                      (''score'', obj [(''type'', str ''number'')]),
                      (''comment'', obj [(''type'', str ''string'')])]),
                   (''required'', JArr [str ''applied'', str ''score'', str ''comment''])]),
                (''leading_lines'', obj [
                   (''type'', str ''object''),
                   (''properties'', obj [
                      (''applied'', obj [(''type'', str ''boolean'')]),
                      (''score'', obj [(''type'', str ''number'')]),
                      (''comment'', obj [(''type'', str ''string'')])]),
                   (''required'', JArr [str ''applied'', str ''score'', str ''comment''])]),
                (''light_and_shadow'', obj [
                   (''type'', str ''object''),
                   (''properties'', obj [
                      (''score'', obj [(''type'', str ''number'')]),
                      (''comment'', obj [(''type'', str ''string'')])]),
                   (''required'', JArr [str ''score'', str ''comment''])])]),
             (''required'', JArr [str ''rule_of_thirds'', str ''golden_ratio'',
                                  str ''leading_lines'', str ''light_and_shadow''])]),
          (''text_explanation'', obj [(''type'', str ''string'')])]),
       (''required'', JArr [str ''overall_score'', str ''creativity_score'',
                            str ''composition_score'', str ''technical_score'',
                            str ''rules'', str ''text_explanation''])]"

definition response_format :: jsval where
  "response_format =
     obj [
       (''type'', str ''json_schema''),
       (''json_schema'', obj [
          (''name'', str ''PhotoEvaluation''),
          (''schema'', photo_schema),
          (''strict'', JBool True)])]"

text \<open>The argument of \<^verbatim>\<open>client.responses.create\<close>: the model name, one user message
  with the prompt and the image, and the response format.\<close>

definition create_args :: "ustring \<Rightarrow> jsval \<Rightarrow> jsval" where
  "create_args prompt imageBase64 =
     obj [
       (''model'', str ''gpt-4.1-mini''),
       (''input'', JArr [
          obj [
            (''role'', str ''user''),
            (''content'', JArr [
               obj [(''type'', str ''input_text''), (''text'', JStr prompt)],
               obj [(''type'', str ''input_image''), (''image_url'', imageBase64)]])]]),
       (''response_format'', response_format)]"

section \<open>The handler of \<^verbatim>\<open>POST /analyze\<close>\<close>

text \<open>
  The handler answers through \<^verbatim>\<open>res.status(n).json(v)\<close> (\<^verbatim>\<open>res.json(v)\<close> leaves
  the status at 200). Besides the answer it calls the provider and writes to
  \<^verbatim>\<open>console.error\<close>; both are recorded, in order.
\<close>

record reply =
  status :: nat
  body :: jsval

datatype log_arg = LogValue jsval | LogThrown thrown

record effects =
  calls :: "jsval list"
  logs :: "(ustring \<times> log_arg) list"

definition json_reply :: "nat \<Rightarrow> jsval \<Rightarrow> reply" where
  "json_reply n v = \<lparr>status = n, body = v\<rparr>"

definition error_reply :: "nat \<Rightarrow> string \<Rightarrow> reply" where
  \<comment> \<open>\<^verbatim>\<open>res.status(n).json({ error: msg })\<close>\<close>
  "error_reply n msg = json_reply n (obj [(''error'', str msg)])"

text \<open>
  Two things the handler uses are not code of the repository and are parameters:
  \<^item> \<open>JSON_parse\<close>, the built-in \<^verbatim>\<open>JSON.parse\<close> applied to any value
    (\<open>None\<close>: it throws a \<^verbatim>\<open>SyntaxError\<close>);
  \<^item> \<open>create\<close>, the outcome of \<^verbatim>\<open>await client.responses.create(args)\<close>:
    \<open>Inr\<close> the response envelope, \<open>Inl\<close> what the rejected promise throws.

  \<open>analyze_try\<close> is the \<^verbatim>\<open>try\<close> block: it ends with an answer or with something
  thrown. \<open>analyze\<close> is the handler, the block with its \<^verbatim>\<open>catch\<close>.
\<close>

definition content_of :: "jsval \<Rightarrow> thrown + jsval" where
  \<comment> \<open>\<^verbatim>\<open>response.output?.[0]?.content?.[0]\<close>\<close>
  "content_of response =
     (case get_member response (asc ''output'') of
        Inl e \<Rightarrow> Inl e
      | Inr output \<Rightarrow>
          Inr (opt_member (opt_member (opt_member output (asc ''0'')) (asc ''content''))
                 (asc ''0'')))"

definition analyze_try ::
  "(jsval \<Rightarrow> jsval option) \<Rightarrow> (jsval \<Rightarrow> thrown + jsval) \<Rightarrow> jsval \<Rightarrow> (thrown + reply) \<times> effects"
where
  "analyze_try JSON_parse create req_body =
     (case get_member req_body (asc ''imageBase64'') of
        Inl e \<Rightarrow> (Inl e, \<lparr>calls = [], logs = []\<rparr>)
      | Inr imageBase64 \<Rightarrow>
          if \<not> truthy imageBase64 \<or> typeof imageBase64 \<noteq> asc ''string'' then
            (Inr (error_reply 400 ''Falta imageBase64 (dataURL base64 de la imagen).''),
             \<lparr>calls = [], logs = []\<rparr>)
          else if 4000000 < string_length imageBase64 then
            (Inr (error_reply 400 ''La imagen es demasiado grande.''),
             \<lparr>calls = [], logs = []\<rparr>)
          else
            let prompt = buildPhotoPrompt;
                args = create_args prompt imageBase64
            in
              (case create args of
                 Inl e \<Rightarrow> (Inl e, \<lparr>calls = [args], logs = []\<rparr>)
               | Inr response \<Rightarrow>
                   (case content_of response of
                      Inl e \<Rightarrow> (Inl e, \<lparr>calls = [args], logs = []\<rparr>)
                    | Inr content \<Rightarrow>
                        if \<not> truthy content
                           \<or> get_prop content (asc ''type'') \<noteq> str ''output_text'' then
                          (Inr (error_reply 500 ''Formato inesperado de respuesta del modelo.''),
                           \<lparr>calls = [args],
                            logs = [(asc ''Formato inesperado de respuesta:'',
                                     LogValue response)]\<rparr>)
                        else
                          let jsonText = get_prop content (asc ''text'') in
                            (case JSON_parse jsonText of
                               None \<Rightarrow>
                                 (Inr (error_reply 500
                                         ''No se ha podido interpretar la respuesta de la IA.''),
                                  \<lparr>calls = [args],
                                   logs = [(asc ''Error parseando JSON devuelto por el modelo:'',
                                            LogThrown SyntaxError)]\<rparr>)
                             | Some parsed \<Rightarrow>
                                 (Inr (json_reply 200 parsed),
                                  \<lparr>calls = [args], logs = []\<rparr>)))))"

definition analyze ::
  "(jsval \<Rightarrow> jsval option) \<Rightarrow> (jsval \<Rightarrow> thrown + jsval) \<Rightarrow> jsval \<Rightarrow> reply \<times> effects"
where
  "analyze JSON_parse create req_body =
     (case analyze_try JSON_parse create req_body of
        (Inr r, eff) \<Rightarrow> (r, eff)
      | (Inl err, eff) \<Rightarrow>
          (error_reply 500 ''Error interno analizando la imagen.'',
           eff\<lparr>logs := logs eff @ [(asc ''Error en /analyze:'', LogThrown err)]\<rparr>))"

section \<open>Around the handler\<close>

subsection \<open>What the caller receives\<close>

text \<open>
  \<^verbatim>\<open>res.json(v)\<close> sends the text \<^verbatim>\<open>JSON.stringify(v)\<close>. \<open>serialized v\<close> is the value
  that text denotes, which is what the caller reads from the response body; it is
  \<open>None\<close> where \<^verbatim>\<open>JSON.stringify\<close> gives no text. \<^verbatim>\<open>JSON.stringify\<close> writes
  \<^verbatim>\<open>NaN\<close> and the infinities as \<^verbatim>\<open>null\<close> and the negative zero as \<^verbatim>\<open>0\<close>, leaves
  a property out whose value is \<^verbatim>\<open>undefined\<close>, and writes \<^verbatim>\<open>null\<close> for an
  \<^verbatim>\<open>undefined\<close> element of an array; every other number, string, boolean and
  \<^verbatim>\<open>null\<close> is read back as it was.
\<close>

definition number_is_finite :: "64 word \<Rightarrow> bool" where
  "number_is_finite w \<longleftrightarrow> w AND 0x7FF0000000000000 \<noteq> 0x7FF0000000000000"

fun serialized :: "jsval \<Rightarrow> jsval option" where
  "serialized JUndefined = None"
| "serialized JNull = Some JNull"
| "serialized (JBool b) = Some (JBool b)"
| "serialized (JNum n) =
     Some (if \<not> number_is_finite n then JNull
           else if n = 0x8000000000000000 then JNum 0
           else JNum n)"
| "serialized (JStr s) = Some (JStr s)"
| "serialized (JArr xs) =
     Some (JArr (map (\<lambda>x. case serialized x of None \<Rightarrow> JNull | Some y \<Rightarrow> y) xs))"
| "serialized (JObj kvs) =
     Some (JObj (concat (map (\<lambda>kv. case serialized (snd kv) of
                                       None \<Rightarrow> []
                                     | Some y \<Rightarrow> [(fst kv, y)]) kvs)))"

definition received_body :: "reply \<Rightarrow> jsval option" where
  "received_body r = serialized (body r)"

text \<open>The values that \<^verbatim>\<open>JSON.stringify\<close> writes without loss: no \<^verbatim>\<open>undefined\<close>, and
  every number finite and not the negative zero.\<close>

fun json_exact :: "jsval \<Rightarrow> bool" where
  "json_exact JUndefined = False"
| "json_exact JNull = True"
| "json_exact (JBool b) = True"
| "json_exact (JNum n) = (number_is_finite n \<and> n \<noteq> 0x8000000000000000)"
| "json_exact (JStr s) = True"
| "json_exact (JArr xs) = list_all json_exact xs"
| "json_exact (JObj kvs) = list_all (\<lambda>kv. json_exact (snd kv)) kvs"

subsection \<open>The body parser in front of the handler\<close>

text \<open>
  The route is mounted behind \<^verbatim>\<open>app.use(express.json({ limit: "4mb" }))\<close>. A request
  is represented by the size of its body in bytes and by the JSON value the body denotes,
  which the parser leaves in \<^verbatim>\<open>req.body\<close>. The parser refuses a body of more than
  \<^verbatim>\<open>4mb\<close>, that is 4 * 1024 * 1024 bytes: Express answers 413 with its own error
  page and the handler does not run. The body \<^verbatim>\<open>{"imageBase64":"..."}\<close> has 18 bytes
  around the string and at least one byte for each code unit of it.
\<close>

record http_request =
  body_size :: nat
  body_json :: jsval

datatype route_result = RefusedByParser nat | Handled "reply \<times> effects"

definition json_limit :: nat where
  "json_limit = 4 * 1024 * 1024"

definition post_analyze ::
  "(jsval \<Rightarrow> jsval option) \<Rightarrow> (jsval \<Rightarrow> thrown + jsval) \<Rightarrow> http_request \<Rightarrow> route_result"
where
  "post_analyze JSON_parse create rq =
     (if json_limit < body_size rq then RefusedByParser 413
      else Handled (analyze JSON_parse create (body_json rq)))"

section \<open>Notions the properties are stated with\<close>

text \<open>A text output block is what the guard of the handler lets through: a truthy value
  whose \<^verbatim>\<open>type\<close> is the string \<^verbatim>\<open>output_text\<close>.\<close>

definition is_text_block :: "jsval \<Rightarrow> bool" where
  "is_text_block content \<longleftrightarrow>
     truthy content \<and> get_prop content (asc ''type'') = str ''output_text''"

text \<open>The text output blocks an envelope contains, at any depth, in document order
  (the first of them is the first text-bearing block of the response).\<close>

fun text_blocks :: "jsval \<Rightarrow> jsval list" where
  "text_blocks (JArr xs) = concat (map text_blocks xs)"
| "text_blocks (JObj kvs) =
     (if map_of kvs (asc ''type'') = Some (str ''output_text'') then [JObj kvs] else [])
     @ concat (map (\<lambda>kv. text_blocks (snd kv)) kvs)"
| "text_blocks _ = []"

text \<open>An error body is an object with the one field \<^verbatim>\<open>error\<close>, a string.\<close>

fun is_error_body :: "jsval \<Rightarrow> bool" where
  "is_error_body (JObj [(k, JStr msg)]) = (k = asc ''error'')"
| "is_error_body _ = False"

text \<open>The five messages the handler answers with.\<close>

definition error_messages :: "string list" where
  "error_messages =
     [''Falta imageBase64 (dataURL base64 de la imagen).'',
      ''La imagen es demasiado grande.'',
      ''Formato inesperado de respuesta del modelo.'',
      ''No se ha podido interpretar la respuesta de la IA.'',
      ''Error interno analizando la imagen.'']"

text \<open>The three labels it logs under.\<close>

definition log_labels :: "string list" where
  "log_labels =
     [''Formato inesperado de respuesta:'',
      ''Error parseando JSON devuelto por el modelo:'',
      ''Error en /analyze:'']"

text \<open>The content parts of the outbound message (\<^verbatim>\<open>args.input[0].content\<close>) other than
  the image.\<close>

definition non_image_parts :: "jsval \<Rightarrow> jsval list" where
  "non_image_parts args =
     (case get_prop (get_prop (get_prop args (asc ''input'')) (asc ''0'')) (asc ''content'') of
        JArr parts \<Rightarrow> filter (\<lambda>part. get_prop part (asc ''type'') \<noteq> str ''input_image'') parts
      | _ \<Rightarrow> [])"

subsection \<open>The result type of the specification\<close>

text \<open>
  The specification describes the result (EvaluationResult) as four numeric scores, a
  mapping \<^verbatim>\<open>rules\<close> of four named judgments (three with a boolean \<^verbatim>\<open>applied\<close>, a
  numeric \<^verbatim>\<open>score\<close> and a string \<^verbatim>\<open>comment\<close>, and \<^verbatim>\<open>light_and_shadow\<close> without
  \<^verbatim>\<open>applied\<close>), and a string \<^verbatim>\<open>text_explanation\<close>. \<open>spec_EvaluationResult\<close> follows
  these words, and \<open>spec_schema_of\<close> is the JSON schema that declares a shape with every
  field required; they are compared with the schema object of the code.
\<close>

datatype shape = SNumber | SBoolean | SString | SObject "(string \<times> shape) list"

definition spec_judgment :: shape where
  "spec_judgment =
     SObject [(''applied'', SBoolean), (''score'', SNumber), (''comment'', SString)]"

definition spec_EvaluationResult :: shape where
  "spec_EvaluationResult =
     SObject [
       (''overall_score'', SNumber),
       (''creativity_score'', SNumber),
       (''composition_score'', SNumber),
       (''technical_score'', SNumber),
       (''rules'', SObject [
          (''rule_of_thirds'', spec_judgment),
          (''golden_ratio'', spec_judgment),
          (''leading_lines'', spec_judgment),
          (''light_and_shadow'', SObject [(''score'', SNumber), (''comment'', SString)])]),
       (''text_explanation'', SString)]"

fun spec_schema_of :: "shape \<Rightarrow> jsval" where
  "spec_schema_of SNumber = obj [(''type'', str ''number'')]"
| "spec_schema_of SBoolean = obj [(''type'', str ''boolean'')]"
| "spec_schema_of SString = obj [(''type'', str ''string'')]"
| "spec_schema_of (SObject fs) =
     obj [(''type'', str ''object''),
          (''properties'', obj (map (\<lambda>f. (fst f, spec_schema_of (snd f))) fs)),
          (''required'', JArr (map (\<lambda>f. str (fst f)) fs))]"

text \<open>Every object schema, at any depth, lists under \<^verbatim>\<open>required\<close> exactly the names
  under its \<^verbatim>\<open>properties\<close>.\<close>

fun all_required :: "jsval \<Rightarrow> bool" where
  "all_required (JObj kvs) =
     ((if map_of kvs (asc ''type'') = Some (str ''object'') then
         (case (map_of kvs (asc ''properties''), map_of kvs (asc ''required'')) of
            (Some (JObj ps), Some (JArr rs)) \<Rightarrow> rs = map (\<lambda>p. JStr (fst p)) ps
          | _ \<Rightarrow> False)
       else True)
      \<and> list_all (\<lambda>kv. all_required (snd kv)) kvs)"
| "all_required (JArr xs) = list_all all_required xs"
| "all_required _ = True"

subsection \<open>Sample inputs\<close>

text \<open>
  A request, provider responses and stand-ins for the two parameters, for evaluating the
  handler. \<open>JSON_parse_sample\<close> agrees with \<^verbatim>\<open>JSON.parse\<close> on the two texts the samples
  use: \<^verbatim>\<open>{}\<close> parses to the empty object, \<^verbatim>\<open>{oops\<close> is a syntax error.
\<close>

definition JSON_parse_sample :: "jsval \<Rightarrow> jsval option" where
  "JSON_parse_sample t = (if t = str ''{}'' then Some (JObj []) else None)"

definition create_returning :: "jsval \<Rightarrow> jsval \<Rightarrow> thrown + jsval" where
  "create_returning response args = Inr response"

definition create_failing :: "jsval \<Rightarrow> thrown + jsval" where
  "create_failing args = Inl (OtherError (obj [(''status'', str ''503'')]))"

definition sample_body :: jsval where
  "sample_body = obj [(''imageBase64'', str ''data:image/png;base64,iVBORw0KGgo='')]"

definition other_body :: jsval where
  "other_body = obj [(''imageBase64'', str ''data:image/jpeg;base64,/9j/4AAQ'')]"

definition empty_image_body :: jsval where
  "empty_image_body = obj [(''imageBase64'', JStr [])]"

definition text_response :: "string \<Rightarrow> jsval" where
  "text_response txt =
     obj [(''output'', JArr [
            obj [(''type'', str ''message''),
                 (''content'', JArr [
                    obj [(''type'', str ''output_text''), (''text'', str txt)]])]])]"

definition refusal_response :: jsval where
  "refusal_response =
     obj [(''output'', JArr [
            obj [(''type'', str ''message''),
                 (''content'', JArr [
                    obj [(''type'', str ''refusal''), (''refusal'', str ''no'')]])]])]"

definition reasoning_first_response :: jsval where
  "reasoning_first_response =
     obj [(''output'', JArr [
            obj [(''type'', str ''reasoning''), (''summary'', JArr [])],
            obj [(''type'', str ''message''),
                 (''content'', JArr [
                    obj [(''type'', str ''output_text''), (''text'', str ''{}'')]])]])]"

definition overflow_text :: string where
  \<open>overflow_text = ''{"a":1e400,"z":-0}''\<close>

definition overflow_value :: jsval where
  "overflow_value = obj [(''a'', JNum 0x7FF0000000000000), (''z'', JNum 0x8000000000000000)]"

text \<open>
  \<open>JSON_parse_overflow\<close> agrees with \<^verbatim>\<open>JSON.parse\<close> on the text \<open>overflow_text\<close>:
  \<^verbatim>\<open>1e400\<close> is beyond the doubles and parses to \<^verbatim>\<open>Infinity\<close>, \<^verbatim>\<open>-0\<close> parses to the
  negative zero.
\<close>

definition JSON_parse_overflow :: "jsval \<Rightarrow> jsval option" where
  "JSON_parse_overflow t = (if t = str overflow_text then Some overflow_value else None)"

section \<open>Auxiliary facts\<close>

subsection \<open>Strings and property access\<close>

text \<open>
  \<open>asc\<close> is injective, so comparing two ASCII keys is comparing their literals.
\<close>

lemma of_char_lt_256: "(of_char c :: nat) < 256"
  by (metis of_char_mod_256 mod_less_divisor zero_less_numeral)

lemma unat_asc_unit: "unat (word_of_nat (of_char c) :: 16 word) = of_char c"
proof -
  have "(of_char c :: nat) < 2 ^ LENGTH(16)"
    by (rule less_trans [OF of_char_lt_256]) simp
  then show ?thesis
    by (rule of_nat_inverse [OF refl])
qed

lemma asc_unit_inj: "(word_of_nat (of_char c) :: 16 word) = word_of_nat (of_char d) \<longleftrightarrow> c = d"
proof
  assume "(word_of_nat (of_char c) :: 16 word) = word_of_nat (of_char d)"
  then have "unat (word_of_nat (of_char c) :: 16 word) = unat (word_of_nat (of_char d) :: 16 word)"
    by (rule arg_cong)
  then have "(of_char c :: nat) = of_char d"
    by (simp only: unat_asc_unit)
  then show "c = d"
    by (rule of_char_eqI)
next
  assume "c = d"
  then show "(word_of_nat (of_char c) :: 16 word) = word_of_nat (of_char d)"
    by (rule arg_cong)
qed

lemma asc_inj [simp]: "asc a = asc b \<longleftrightarrow> a = b"
proof (induction a arbitrary: b)
  case Nil
  then show ?case by (cases b) (simp_all add: asc_def)
next
  case (Cons c cs)
  then show ?case by (cases b) (simp_all add: asc_def asc_unit_inj)
qed

lemma asc_Nil [simp]: "asc s = [] \<longleftrightarrow> s = []"
  by (simp add: asc_def)

lemma length_asc [simp]: "length (asc s) = length s"
  by (simp add: asc_def)

lemma str_inj [simp]: "str a = str b \<longleftrightarrow> a = b"
  by (simp add: str_def)

lemma str_simps [simp]:
  "str a \<noteq> JUndefined" "str a \<noteq> JNull" "str a \<noteq> JBool b" "str a \<noteq> JNum n"
  "str a \<noteq> JArr xs" "str a \<noteq> JObj kvs" "JUndefined \<noteq> str a"
  "truthy (str a) \<longleftrightarrow> a \<noteq> []" "\<not> nullish (str a)"
  by (simp_all add: str_def)

lemma str_typeof_length [simp]:
  "typeof (str a) = asc ''string''" "string_length (str a) = length a"
  by (simp_all add: str_def asc_def)

lemma map_of_asc_keys: "map_of (map (\<lambda>(k, v). (asc k, v)) kvs) (asc k) = map_of kvs k"
  by (induction kvs) auto

lemma get_prop_obj [simp]:
  "get_prop (obj kvs) (asc k) = (case map_of kvs k of Some v \<Rightarrow> v | None \<Rightarrow> JUndefined)"
  by (simp add: obj_def map_of_asc_keys)

lemma obj_simps [simp]:
  "truthy (obj kvs)" "\<not> nullish (obj kvs)" "obj kvs \<noteq> JUndefined" "obj kvs \<noteq> str a"
  by (simp_all add: obj_def str_def)

lemma array_index_0 [simp]: "array_index (asc ''0'') = Some 0"
  by (simp add: array_index_def asc_def digit_value_def)

lemma array_index_names [simp]:
  "array_index (asc ''type'') = None"
  "array_index (asc ''text'') = None"
  "array_index (asc ''content'') = None"
  "array_index (asc ''output'') = None"
  "array_index (asc ''input'') = None"
  "array_index (asc ''imageBase64'') = None"
  by (simp_all add: array_index_def asc_def digit_value_def)

lemma get_prop_nullish: "nullish v \<Longrightarrow> get_prop v k = JUndefined"
  by (cases v) simp_all

lemma typeof_string_iff: "typeof v = asc ''string'' \<longleftrightarrow> (\<exists>s. v = JStr s)"
  by (cases v) simp_all

subsection \<open>Replies\<close>

lemma status_error_reply [simp]: "status (error_reply n msg) = n"
  by (simp add: error_reply_def json_reply_def)

lemma body_error_reply [simp]: "body (error_reply n msg) = obj [(''error'', str msg)]"
  by (simp add: error_reply_def json_reply_def)

lemma json_reply_sel [simp]: "status (json_reply n v) = n" "body (json_reply n v) = v"
  by (simp_all add: json_reply_def)

lemma is_error_body_obj [simp]: "is_error_body (obj [(''error'', str msg)])"
  by (simp add: obj_def str_def)

subsection \<open>The paths of the handler\<close>

text \<open>
  One fact for each way through the handler: the body cannot be read, the field is
  missing or not a string, it is the empty string, it is too long, and the accepted
  request, whose answer depends on the provider. Every body falls under one of them.
\<close>

lemma analyze_body_nullish:
  assumes "nullish req_body"
  shows "analyze JSON_parse create req_body =
           (error_reply 500 ''Error interno analizando la imagen.'',
            \<lparr>calls = [], logs = [(asc ''Error en /analyze:'', LogThrown TypeError)]\<rparr>)"
  using assms by (simp add: analyze_def analyze_try_def get_member_def)

lemma analyze_missing:
  assumes "\<not> nullish req_body"
    and "\<forall>s. get_prop req_body (asc ''imageBase64'') \<noteq> JStr s"
  shows "analyze JSON_parse create req_body =
           (error_reply 400 ''Falta imageBase64 (dataURL base64 de la imagen).'',
            \<lparr>calls = [], logs = []\<rparr>)"
  using assms by (simp add: analyze_def analyze_try_def get_member_def typeof_string_iff)

lemma analyze_empty:
  assumes "get_prop req_body (asc ''imageBase64'') = JStr []"
  shows "analyze JSON_parse create req_body =
           (error_reply 400 ''Falta imageBase64 (dataURL base64 de la imagen).'',
            \<lparr>calls = [], logs = []\<rparr>)"
proof -
  have "\<not> nullish req_body"
    using assms get_prop_nullish by fastforce
  then show ?thesis
    using assms by (simp add: analyze_def analyze_try_def get_member_def)
qed

lemma analyze_too_large:
  assumes "get_prop req_body (asc ''imageBase64'') = JStr s" and "4000000 < length s"
  shows "analyze JSON_parse create req_body =
           (error_reply 400 ''La imagen es demasiado grande.'', \<lparr>calls = [], logs = []\<rparr>)"
proof -
  have "\<not> nullish req_body"
    using assms(1) get_prop_nullish by fastforce
  moreover have "s \<noteq> []"
    using assms(2) by auto
  ultimately show ?thesis
    using assms by (simp add: analyze_def analyze_try_def get_member_def)
qed

lemma analyze_accepted:
  assumes "get_prop req_body (asc ''imageBase64'') = JStr s"
    and "s \<noteq> []" and "length s \<le> 4000000"
  shows "analyze JSON_parse create req_body =
           (case create (create_args buildPhotoPrompt (JStr s)) of
              Inl e \<Rightarrow>
                (error_reply 500 ''Error interno analizando la imagen.'',
                 \<lparr>calls = [create_args buildPhotoPrompt (JStr s)],
                  logs = [(asc ''Error en /analyze:'', LogThrown e)]\<rparr>)
            | Inr response \<Rightarrow>
                (case content_of response of
                   Inl e \<Rightarrow>
                     (error_reply 500 ''Error interno analizando la imagen.'',
                      \<lparr>calls = [create_args buildPhotoPrompt (JStr s)],
                       logs = [(asc ''Error en /analyze:'', LogThrown e)]\<rparr>)
                 | Inr content \<Rightarrow>
                     if \<not> is_text_block content then
                       (error_reply 500 ''Formato inesperado de respuesta del modelo.'',
                        \<lparr>calls = [create_args buildPhotoPrompt (JStr s)],
                         logs = [(asc ''Formato inesperado de respuesta:'', LogValue response)]\<rparr>)
                     else
                       (case JSON_parse (get_prop content (asc ''text'')) of
                          None \<Rightarrow>
                            (error_reply 500 ''No se ha podido interpretar la respuesta de la IA.'',
                             \<lparr>calls = [create_args buildPhotoPrompt (JStr s)],
                              logs = [(asc ''Error parseando JSON devuelto por el modelo:'',
                                       LogThrown SyntaxError)]\<rparr>)
                        | Some parsed \<Rightarrow>
                            (json_reply 200 parsed,
                             \<lparr>calls = [create_args buildPhotoPrompt (JStr s)], logs = []\<rparr>))))"
proof -
  have "\<not> nullish req_body"
    using assms(1) get_prop_nullish by fastforce
  then show ?thesis
    using assms
    by (simp add: analyze_def analyze_try_def get_member_def is_text_block_def Let_def
             split: sum.splits option.splits)
qed

lemma analyze_thrown:
  assumes "analyze_try JSON_parse create req_body = (Inl err, eff)"
  shows "fst (analyze JSON_parse create req_body)
           = error_reply 500 ''Error interno analizando la imagen.''"
  using assms by (simp add: analyze_def)

lemma body_cases:
  obtains (unreadable) "nullish req_body"
  | (missing) "\<not> nullish req_body" "\<forall>s. get_prop req_body (asc ''imageBase64'') \<noteq> JStr s"
  | (empty) "get_prop req_body (asc ''imageBase64'') = JStr []"
  | (too_large) s where "get_prop req_body (asc ''imageBase64'') = JStr s" "4000000 < length s"
  | (accepted) s where "get_prop req_body (asc ''imageBase64'') = JStr s" "s \<noteq> []"
      "length s \<le> 4000000"
  by (metis not_le_imp_less)

lemma calls_analyze:
  "calls (snd (analyze JSON_parse create req_body))
     = (case get_prop req_body (asc ''imageBase64'') of
          JStr s \<Rightarrow>
            if s \<noteq> [] \<and> length s \<le> 4000000 then [create_args buildPhotoPrompt (JStr s)] else []
        | _ \<Rightarrow> [])"
proof (cases req_body rule: body_cases)
  case unreadable
  then show ?thesis
    by (simp add: analyze_body_nullish get_prop_nullish)
next
  case missing
  then show ?thesis
    by (simp add: analyze_missing split: jsval.splits)
next
  case empty
  then show ?thesis
    by (simp add: analyze_empty)
next
  case (too_large s)
  then show ?thesis
    by (simp add: analyze_too_large)
next
  case (accepted s)
  then show ?thesis
    by (simp add: analyze_accepted split: sum.splits option.splits)
qed

lemma logs_analyze:
  "length (logs (snd (analyze JSON_parse create req_body))) \<le> 1
   \<and> (\<forall>entry \<in> set (logs (snd (analyze JSON_parse create req_body))).
         fst entry \<in> set (map asc log_labels))"
proof (cases req_body rule: body_cases)
  case unreadable
  then show ?thesis
    by (simp add: analyze_body_nullish log_labels_def)
next
  case missing
  then show ?thesis
    by (simp add: analyze_missing)
next
  case empty
  then show ?thesis
    by (simp add: analyze_empty)
next
  case (too_large s)
  then show ?thesis
    by (simp add: analyze_too_large)
next
  case (accepted s)
  then show ?thesis
    by (simp add: analyze_accepted log_labels_def split: sum.splits option.splits)
qed

lemma reply_analyze:
  "(\<exists>msg \<in> set error_messages.
      fst (analyze JSON_parse create req_body) = error_reply 400 msg
      \<or> fst (analyze JSON_parse create req_body) = error_reply 500 msg)
   \<or> (\<exists>s response content.
         get_prop req_body (asc ''imageBase64'') = JStr s \<and> s \<noteq> [] \<and> length s \<le> 4000000
         \<and> create (create_args buildPhotoPrompt (JStr s)) = Inr response
         \<and> content_of response = Inr content \<and> is_text_block content
         \<and> (\<exists>parsed. JSON_parse (get_prop content (asc ''text'')) = Some parsed
              \<and> fst (analyze JSON_parse create req_body) = json_reply 200 parsed))"
proof (cases req_body rule: body_cases)
  case unreadable
  then show ?thesis
    by (simp add: analyze_body_nullish error_messages_def)
next
  case missing
  then show ?thesis
    by (simp add: analyze_missing error_messages_def)
next
  case empty
  then show ?thesis
    by (simp add: analyze_empty error_messages_def)
next
  case (too_large s)
  then show ?thesis
    by (simp add: analyze_too_large error_messages_def)
next
  case (accepted s)
  then show ?thesis
    by (auto simp: analyze_accepted error_messages_def split: sum.splits option.splits)
qed

lemma call_is_create_args:
  assumes "args \<in> set (calls (snd (analyze JSON_parse create req_body)))"
  shows "args = create_args buildPhotoPrompt (get_prop req_body (asc ''imageBase64''))"
  using assms by (auto simp: calls_analyze split: jsval.splits if_splits)

subsection \<open>Text blocks of an envelope\<close>

text \<open>
  Whatever the handler reaches by reading properties of the envelope is a part of the
  envelope: an envelope without text blocks has no text block at
  \<^verbatim>\<open>output[0].content[0]\<close>.
\<close>

lemma text_blocks_get_prop: "set (text_blocks (get_prop v k)) \<subseteq> set (text_blocks v)"
proof (cases v)
  case (JObj kvs)
  show ?thesis
  proof (cases "map_of kvs k")
    case None
    with JObj show ?thesis by simp
  next
    case (Some x)
    then have "(k, x) \<in> set kvs"
      by (rule map_of_SomeD)
    then have "set (text_blocks x) \<subseteq> set (concat (map (\<lambda>kv. text_blocks (snd kv)) kvs))"
      by force
    with JObj Some show ?thesis by auto
  qed
next
  case (JArr xs)
  then show ?thesis
    by (auto split: option.splits intro: nth_mem)
next
  case (JStr s)
  then show ?thesis
    by (auto split: option.splits)
qed simp_all

lemma text_blocks_opt_member: "set (text_blocks (opt_member v k)) \<subseteq> set (text_blocks v)"
  by (simp add: opt_member_def text_blocks_get_prop)

lemma is_text_block_mem: "is_text_block c \<Longrightarrow> c \<in> set (text_blocks c)"
  by (cases c) (auto simp: is_text_block_def split: option.splits)

lemma text_blocks_content_of:
  assumes "content_of response = Inr content"
  shows "set (text_blocks content) \<subseteq> set (text_blocks response)"
proof -
  from assms have content:
    "content = opt_member (opt_member (opt_member (get_prop response (asc ''output''))
                 (asc ''0'')) (asc ''content'')) (asc ''0'')"
    by (auto simp: content_of_def get_member_def split: if_splits)
  show ?thesis
    unfolding content
    using text_blocks_opt_member text_blocks_get_prop by (meson order_trans)
qed

lemma no_text_block_content:
  assumes "text_blocks response = []" and "content_of response = Inr content"
  shows "\<not> is_text_block content"
  using assms text_blocks_content_of [OF assms(2)] is_text_block_mem [of content] by auto

subsection \<open>The argument of the call and the schema\<close>

lemma non_image_parts_create_args:
  "non_image_parts (create_args prompt img)
     = [obj [(''type'', str ''input_text''), (''text'', JStr prompt)]]"
  by (simp add: non_image_parts_def create_args_def)

lemma response_format_create_args:
  "get_prop (create_args prompt img) (asc ''response_format'') = response_format"
  by (simp add: create_args_def)

lemma response_format_parts:
  "get_prop response_format (asc ''type'') = str ''json_schema''"
  "get_prop (get_prop response_format (asc ''json_schema'')) (asc ''name'') = str ''PhotoEvaluation''"
  "get_prop (get_prop response_format (asc ''json_schema'')) (asc ''schema'') = photo_schema"
  "get_prop (get_prop response_format (asc ''json_schema'')) (asc ''strict'') = JBool True"
  by (simp_all add: response_format_def)

lemma schema_is_spec_schema: "photo_schema = spec_schema_of spec_EvaluationResult"
  by (simp add: photo_schema_def spec_EvaluationResult_def spec_judgment_def)

lemma schema_all_required: "all_required photo_schema"
  by (simp add: photo_schema_def obj_def str_def)

subsection \<open>The sample inputs\<close>

lemma create_returning_simp [simp]: "create_returning response args = Inr response"
  by (simp add: create_returning_def)

lemma JSON_parse_sample_simps [simp]:
  "JSON_parse_sample (str ''{}'') = Some (JObj [])"
  "JSON_parse_sample (str ''{oops'') = None"
  by (simp_all add: JSON_parse_sample_def)

lemma content_of_text_response [simp]:
  "content_of (text_response txt) = Inr (obj [(''type'', str ''output_text''), (''text'', str txt)])"
  by (simp add: content_of_def text_response_def get_member_def opt_member_def)

lemma is_text_block_sample [simp]:
  "is_text_block (obj [(''type'', str ''output_text''), (''text'', str txt)])"
  by (simp add: is_text_block_def)

lemma content_of_reasoning_first: "content_of reasoning_first_response = Inr JUndefined"
  by (simp add: content_of_def reasoning_first_response_def get_member_def opt_member_def)

lemma content_of_refusal:
  "content_of refusal_response = Inr (obj [(''type'', str ''refusal''), (''refusal'', str ''no'')])"
  by (simp add: content_of_def refusal_response_def get_member_def opt_member_def)

lemma text_blocks_reasoning_first:
  "text_blocks reasoning_first_response
     = [obj [(''type'', str ''output_text''), (''text'', str ''{}'')]]"
  by (simp add: reasoning_first_response_def obj_def str_def)

lemma text_blocks_refusal: "text_blocks refusal_response = []"
  by (simp add: refusal_response_def obj_def str_def)

lemma sample_image:
  "get_prop sample_body (asc ''imageBase64'') = JStr (asc ''data:image/png;base64,iVBORw0KGgo='')"
  by (simp add: sample_body_def str_def)

lemma sample_image_nonempty: "asc ''data:image/png;base64,iVBORw0KGgo='' \<noteq> []"
  by simp

lemma sample_image_short: "length (asc ''data:image/png;base64,iVBORw0KGgo='') \<le> 4000000"
  by simp

lemma other_image:
  "get_prop other_body (asc ''imageBase64'') = JStr (asc ''data:image/jpeg;base64,/9j/4AAQ'')"
  by (simp add: other_body_def str_def)

lemma analyze_sample_failing:
  "analyze JSON_parse_sample create_failing sample_body
     = (error_reply 500 ''Error interno analizando la imagen.'',
        \<lparr>calls = [create_args buildPhotoPrompt
                     (JStr (asc ''data:image/png;base64,iVBORw0KGgo=''))],
         logs = [(asc ''Error en /analyze:'',
                  LogThrown (OtherError (obj [(''status'', str ''503'')])))]\<rparr>)"
  by (simp add: create_failing_def
        analyze_accepted [OF sample_image sample_image_nonempty sample_image_short])

lemma analyze_try_sample_failing:
  "fst (analyze_try JSON_parse_sample create_failing sample_body)
     = Inl (OtherError (obj [(''status'', str ''503'')]))"
  by (simp add: analyze_try_def get_member_def sample_body_def create_failing_def)

lemma calls_sample:
  "calls (snd (analyze JSON_parse_sample (create_returning (text_response ''{}'')) sample_body))
     = [create_args buildPhotoPrompt (JStr (asc ''data:image/png;base64,iVBORw0KGgo=''))]"
  by (simp add: calls_analyze sample_image)

lemma calls_other:
  "calls (snd (analyze JSON_parse_sample create_failing other_body))
     = [create_args buildPhotoPrompt (JStr (asc ''data:image/jpeg;base64,/9j/4AAQ''))]"
  by (simp add: calls_analyze other_image)

subsection \<open>Serialisation of the answer\<close>

text \<open>
  A value without \<^verbatim>\<open>undefined\<close>, infinities, \<^verbatim>\<open>NaN\<close> and negative zero is read back
  from its serialisation as it was.
\<close>

lemma serialized_exact_list:
  assumes "\<And>x. x \<in> set xs \<Longrightarrow> serialized x = Some x"
  shows "map (\<lambda>x. case serialized x of None \<Rightarrow> JNull | Some y \<Rightarrow> y) xs = xs"
  using assms by (induction xs) simp_all

lemma serialized_exact_fields:
  assumes "\<And>kv. kv \<in> set kvs \<Longrightarrow> serialized (snd kv) = Some (snd kv)"
  shows "concat (map (\<lambda>kv. case serialized (snd kv) of None \<Rightarrow> [] | Some y \<Rightarrow> [(fst kv, y)]) kvs)
           = kvs"
  using assms by (induction kvs) simp_all

lemma serialized_exact: "json_exact v \<Longrightarrow> serialized v = Some v"
proof (induction v rule: serialized.induct)
  case (6 xs)
  then show ?case
    by (simp add: serialized_exact_list list_all_iff)
next
  case (7 kvs)
  then show ?case
    by (simp add: serialized_exact_fields list_all_iff)
qed simp_all

lemma serialized_overflow:
  "serialized overflow_value = Some (obj [(''a'', JNull), (''z'', JNum 0)])"
  by (simp add: overflow_value_def obj_def number_is_finite_def)

lemma overflow_changed: "serialized overflow_value \<noteq> Some overflow_value"
  by (simp add: overflow_value_def obj_def number_is_finite_def)

lemma JSON_parse_overflow_simp [simp]:
  "JSON_parse_overflow (str overflow_text) = Some overflow_value"
  by (simp add: JSON_parse_overflow_def)

lemma json_exact_empty [simp]: "json_exact (JObj [])"
  by simp

subsection \<open>The body parser\<close>

lemma json_limit_value: "json_limit = 4194304"
  by (simp add: json_limit_def)

subsection \<open>When the handler logs\<close>

lemma logs_analyze_exact:
  "logs (snd (analyze JSON_parse create req_body))
     = (if nullish req_body then [(asc ''Error en /analyze:'', LogThrown TypeError)]
        else
          (case get_prop req_body (asc ''imageBase64'') of
             JStr s \<Rightarrow>
               if s \<noteq> [] \<and> length s \<le> 4000000 then
                 (case create (create_args buildPhotoPrompt (JStr s)) of
                    Inl e \<Rightarrow> [(asc ''Error en /analyze:'', LogThrown e)]
                  | Inr response \<Rightarrow>
                      (case content_of response of
                         Inl e \<Rightarrow> [(asc ''Error en /analyze:'', LogThrown e)]
                       | Inr content \<Rightarrow>
                           if \<not> is_text_block content then
                             [(asc ''Formato inesperado de respuesta:'', LogValue response)]
                           else
                             (case JSON_parse (get_prop content (asc ''text'')) of
                                None \<Rightarrow>
                                  [(asc ''Error parseando JSON devuelto por el modelo:'',
                                    LogThrown SyntaxError)]
                              | Some parsed \<Rightarrow> [])))
               else []
           | _ \<Rightarrow> []))"
proof (cases req_body rule: body_cases)
  case unreadable
  then show ?thesis
    by (simp add: analyze_body_nullish)
next
  case missing
  then show ?thesis
    by (simp add: analyze_missing split: jsval.splits)
next
  case empty
  moreover from empty have "\<not> nullish req_body"
    using get_prop_nullish by fastforce
  ultimately show ?thesis
    by (simp add: analyze_empty)
next
  case (too_large s)
  moreover from too_large have "\<not> nullish req_body"
    using get_prop_nullish by fastforce
  ultimately show ?thesis
    by (simp add: analyze_too_large)
next
  case (accepted s)
  moreover from accepted have "\<not> nullish req_body"
    using get_prop_nullish by fastforce
  ultimately show ?thesis
    by (simp add: analyze_accepted split: sum.splits option.splits)
qed

lemma quiet_answers:
  assumes "status (fst (analyze JSON_parse create req_body)) = 200
           \<or> status (fst (analyze JSON_parse create req_body)) = 400"
  shows "logs (snd (analyze JSON_parse create req_body)) = []"
proof (cases req_body rule: body_cases)
  case unreadable
  with assms show ?thesis
    by (simp add: analyze_body_nullish)
next
  case missing
  then show ?thesis
    by (simp add: analyze_missing)
next
  case empty
  then show ?thesis
    by (simp add: analyze_empty)
next
  case (too_large s)
  then show ?thesis
    by (simp add: analyze_too_large)
next
  case (accepted s)
  with assms show ?thesis
    by (auto simp: analyze_accepted split: sum.splits option.splits if_splits)
qed

section \<open>Properties of the handler\<close>

subsection \<open>Forwarding the parsed answer\<close>

text \<open>
  C1, as stated, fails in two ways. At the empty string the field \<^verbatim>\<open>imageBase64\<close> is
  present, it is a string and its length 0 is below the ceiling, the provider returns a
  text block whose text parses, and yet the handler answers 400, because the guard
  \<^verbatim>\<open>!imageBase64\<close> takes the empty string for a missing field. And for the valid JSON
  text \<open>overflow_text\<close> the handler answers 200 and hands the parse to \<^verbatim>\<open>res.json\<close>, but
  the body the caller receives is not equal to the parse: the infinity arrives as
  \<^verbatim>\<open>null\<close> and the negative zero as \<^verbatim>\<open>0\<close>.
\<close>

theorem forwarding_fails_twice:
  "get_prop empty_image_body (asc ''imageBase64'') = JStr []
   \<and> length ([] :: ustring) \<le> 4000000
   \<and> content_of (text_response ''{}'')
       = Inr (obj [(''type'', str ''output_text''), (''text'', str ''{}'')])
   \<and> is_text_block (obj [(''type'', str ''output_text''), (''text'', str ''{}'')])
   \<and> JSON_parse_sample
         (get_prop (obj [(''type'', str ''output_text''), (''text'', str ''{}'')]) (asc ''text''))
       = Some (JObj [])
   \<and> fst (analyze JSON_parse_sample (create_returning (text_response ''{}'')) empty_image_body)
       = error_reply 400 ''Falta imageBase64 (dataURL base64 de la imagen).''
   \<and> get_prop sample_body (asc ''imageBase64'') = JStr (asc ''data:image/png;base64,iVBORw0KGgo='')
   \<and> content_of (text_response overflow_text)
       = Inr (obj [(''type'', str ''output_text''), (''text'', str overflow_text)])
   \<and> JSON_parse_overflow
         (get_prop (obj [(''type'', str ''output_text''), (''text'', str overflow_text)])
            (asc ''text''))
       = Some overflow_value
   \<and> fst (analyze JSON_parse_overflow (create_returning (text_response overflow_text)) sample_body)
       = json_reply 200 overflow_value
   \<and> received_body
         (fst (analyze JSON_parse_overflow (create_returning (text_response overflow_text))
                 sample_body))
       = Some (obj [(''a'', JNull), (''z'', JNum 0)])
   \<and> received_body
         (fst (analyze JSON_parse_overflow (create_returning (text_response overflow_text))
                 sample_body))
       \<noteq> Some overflow_value"
proof -
  have empty: "get_prop empty_image_body (asc ''imageBase64'') = JStr []"
    by (simp add: empty_image_body_def)
  have run: "fst (analyze JSON_parse_overflow (create_returning (text_response overflow_text))
                    sample_body) = json_reply 200 overflow_value"
    by (simp add: analyze_accepted [OF sample_image sample_image_nonempty sample_image_short])
  show ?thesis
    using serialized_overflow overflow_changed
    by (simp add: empty analyze_empty run received_body_def sample_image)
qed

text \<open>
  C1, amended: for every request whose \<^verbatim>\<open>imageBase64\<close> is a non-empty string of at
  most 4,000,000 code units and every provider response whose extracted block is a text
  block with a text that \<^verbatim>\<open>JSON.parse\<close> accepts, the handler answers 200 and hands
  exactly the parsed value to \<^verbatim>\<open>res.json\<close>, after one call of the provider and without
  logging; nothing checks the value against the schema. The body the caller receives is
  the serialisation of that value, and it is equal to the parsed value whenever every
  number in it is finite and not the negative zero (a parsed value holds neither
  \<^verbatim>\<open>NaN\<close> nor \<^verbatim>\<open>undefined\<close>).
\<close>

theorem valid_json_is_forwarded:
  assumes "get_prop req_body (asc ''imageBase64'') = JStr s"
    and "s \<noteq> []" and "length s \<le> 4000000"
    and "create (create_args buildPhotoPrompt (JStr s)) = Inr response"
    and "content_of response = Inr content" and "is_text_block content"
    and "JSON_parse (get_prop content (asc ''text'')) = Some parsed"
  shows "analyze JSON_parse create req_body =
           (json_reply 200 parsed,
            \<lparr>calls = [create_args buildPhotoPrompt (JStr s)], logs = []\<rparr>)
         \<and> received_body (fst (analyze JSON_parse create req_body)) = serialized parsed
         \<and> (json_exact parsed \<longrightarrow>
              received_body (fst (analyze JSON_parse create req_body)) = Some parsed)"
  using assms(4-7)
  by (simp add: analyze_accepted [OF assms(1-3)] received_body_def serialized_exact)

text \<open>
  The amended C1 at the sample request and a response with the text \<^verbatim>\<open>{}\<close>: the
  empty object has none of the fields of the schema and is forwarded all the same.
\<close>

theorem valid_json_is_forwarded_witness:
  "get_prop sample_body (asc ''imageBase64'') = JStr (asc ''data:image/png;base64,iVBORw0KGgo='')
   \<and> asc ''data:image/png;base64,iVBORw0KGgo='' \<noteq> []
   \<and> length (asc ''data:image/png;base64,iVBORw0KGgo='') \<le> 4000000
   \<and> create_returning (text_response ''{}'')
         (create_args buildPhotoPrompt (JStr (asc ''data:image/png;base64,iVBORw0KGgo='')))
       = Inr (text_response ''{}'')
   \<and> content_of (text_response ''{}'')
       = Inr (obj [(''type'', str ''output_text''), (''text'', str ''{}'')])
   \<and> is_text_block (obj [(''type'', str ''output_text''), (''text'', str ''{}'')])
   \<and> JSON_parse_sample
         (get_prop (obj [(''type'', str ''output_text''), (''text'', str ''{}'')]) (asc ''text''))
       = Some (JObj [])
   \<and> json_exact (JObj [])
   \<and> analyze JSON_parse_sample (create_returning (text_response ''{}'')) sample_body
       = (json_reply 200 (JObj []),
          \<lparr>calls = [create_args buildPhotoPrompt
                       (JStr (asc ''data:image/png;base64,iVBORw0KGgo=''))],
           logs = []\<rparr>)
   \<and> received_body
         (fst (analyze JSON_parse_sample (create_returning (text_response ''{}'')) sample_body))
       = Some (JObj [])"
proof -
  have parsed: "JSON_parse_sample
         (get_prop (obj [(''type'', str ''output_text''), (''text'', str ''{}'')]) (asc ''text''))
       = Some (JObj [])"
    by simp
  have exact: "json_exact (JObj [])"
    by simp
  show ?thesis
    using sample_image sample_image_nonempty sample_image_short parsed exact
      valid_json_is_forwarded
        [where req_body = sample_body and s = "asc ''data:image/png;base64,iVBORw0KGgo=''"
           and JSON_parse = JSON_parse_sample
           and create = "create_returning (text_response ''{}'')"
           and response = "text_response ''{}''"
           and content = "obj [(''type'', str ''output_text''), (''text'', str ''{}'')]"
           and parsed = "JObj []"]
    by (simp add: received_body_def)
qed

subsection \<open>Validation of the request\<close>

text \<open>
  C2 states that a request whose body is missing \<^verbatim>\<open>imageBase64\<close> is answered 400.
  The code does so for a body that was parsed and lacks the field (below), but not for
  the request whose body was not parsed at all: there \<^verbatim>\<open>req.body\<close> is
  \<^verbatim>\<open>undefined\<close>, the destructuring \<^verbatim>\<open>const { imageBase64 } = req.body\<close> throws before
  the guard is reached, and the \<^verbatim>\<open>catch\<close> answers 500 with the message of an internal
  error, where the body \<^verbatim>\<open>{}\<close> is answered 400.
\<close>

theorem unparsed_body_is_answered_500:
  "analyze JSON_parse create JUndefined
     = (error_reply 500 ''Error interno analizando la imagen.'',
        \<lparr>calls = [], logs = [(asc ''Error en /analyze:'', LogThrown TypeError)]\<rparr>)
   \<and> get_prop JUndefined (asc ''imageBase64'') = JUndefined
   \<and> status (fst (analyze JSON_parse create JUndefined)) = 500
   \<and> status (fst (analyze JSON_parse create (obj []))) = 400"
  by (simp add: analyze_body_nullish analyze_missing)

text \<open>
  The same at the sample parser and a provider that is never reached.
\<close>

theorem unparsed_body_is_answered_500_witness:
  "analyze JSON_parse_sample create_failing JUndefined
     = (error_reply 500 ''Error interno analizando la imagen.'',
        \<lparr>calls = [], logs = [(asc ''Error en /analyze:'', LogThrown TypeError)]\<rparr>)
   \<and> status (fst (analyze JSON_parse_sample create_failing JUndefined)) = 500"
  using unparsed_body_is_answered_500 [of JSON_parse_sample create_failing]
  by simp

text \<open>
  What the guard does for every body that is a value (neither \<^verbatim>\<open>undefined\<close> nor
  \<^verbatim>\<open>null\<close>): when \<^verbatim>\<open>imageBase64\<close> is missing or is not a string, the handler answers 400
  with a body \<^verbatim>\<open>{ error: string }\<close> and makes no call of the provider.
\<close>

theorem missing_image_is_rejected:
  assumes "\<not> nullish req_body"
    and "\<forall>s. get_prop req_body (asc ''imageBase64'') \<noteq> JStr s"
  shows "status (fst (analyze JSON_parse create req_body)) = 400
         \<and> is_error_body (body (fst (analyze JSON_parse create req_body)))
         \<and> calls (snd (analyze JSON_parse create req_body)) = []"
  by (simp add: analyze_missing [OF assms])

text \<open>
  This at a body without the field, and at a body in which the field is the number 42.
\<close>

theorem missing_image_is_rejected_witness:
  "\<not> nullish (obj [(''image'', str ''data:'')])
   \<and> (\<forall>s. get_prop (obj [(''image'', str ''data:'')]) (asc ''imageBase64'') \<noteq> JStr s)
   \<and> status (fst (analyze JSON_parse_sample (create_returning (text_response ''{}''))
                    (obj [(''image'', str ''data:'')]))) = 400
   \<and> is_error_body (body (fst (analyze JSON_parse_sample (create_returning (text_response ''{}''))
                                 (obj [(''image'', str ''data:'')]))))
   \<and> calls (snd (analyze JSON_parse_sample (create_returning (text_response ''{}''))
                    (obj [(''image'', str ''data:'')]))) = []
   \<and> \<not> nullish (obj [(''imageBase64'', JNum 0x4045000000000000)])
   \<and> (\<forall>s. get_prop (obj [(''imageBase64'', JNum 0x4045000000000000)]) (asc ''imageBase64'')
            \<noteq> JStr s)
   \<and> status (fst (analyze JSON_parse_sample (create_returning (text_response ''{}''))
                    (obj [(''imageBase64'', JNum 0x4045000000000000)]))) = 400
   \<and> calls (snd (analyze JSON_parse_sample (create_returning (text_response ''{}''))
                    (obj [(''imageBase64'', JNum 0x4045000000000000)]))) = []"
  using missing_image_is_rejected
          [of "obj [(''image'', str ''data:'')]" JSON_parse_sample
              "create_returning (text_response ''{}'')"]
        missing_image_is_rejected
          [of "obj [(''imageBase64'', JNum 0x4045000000000000)]" JSON_parse_sample
              "create_returning (text_response ''{}'')"]
  by simp

text \<open>
  C3, as stated, fails for a request whose body is larger than the body parser allows: a
  string of 5,000,000 letters makes a body of 5,000,018 bytes, the parser refuses it with
  413 and the handler, with its 400, does not run.
\<close>

theorem oversized_body_is_refused_by_parser:
  "get_prop (body_json \<lparr>body_size = 5000018,
                         body_json = JObj [(asc ''imageBase64'', JStr (replicate 5000000 0x41))]\<rparr>)
     (asc ''imageBase64'') = JStr (replicate 5000000 0x41)
   \<and> 4000000 < length (replicate 5000000 (0x41 :: 16 word))
   \<and> post_analyze JSON_parse_sample (create_returning (text_response ''{}''))
         \<lparr>body_size = 5000018,
          body_json = JObj [(asc ''imageBase64'', JStr (replicate 5000000 0x41))]\<rparr>
       = RefusedByParser 413"
  by (simp add: post_analyze_def json_limit_value)

text \<open>
  C3, amended: for every request whose body is within the limit of the body parser
  (4 * 1024 * 1024 bytes) and in which \<^verbatim>\<open>imageBase64\<close> is a string of more than
  4,000,000 code units, whatever they are, the answer is 400 with a body
  \<^verbatim>\<open>{ error: string }\<close>, and no call of the provider is made. A request whose body is
  over the limit is refused by the parser with 413 before the handler runs; that is the
  case of every string of more than 4,194,286 code units.
\<close>

theorem oversized_image_within_limit_is_rejected:
  assumes "get_prop (body_json rq) (asc ''imageBase64'') = JStr s" and "4000000 < length s"
  shows "(body_size rq \<le> json_limit \<longrightarrow>
            post_analyze JSON_parse create rq
              = Handled (error_reply 400 ''La imagen es demasiado grande.'',
                         \<lparr>calls = [], logs = []\<rparr>))
         \<and> status (error_reply 400 ''La imagen es demasiado grande.'') = 400
         \<and> is_error_body (body (error_reply 400 ''La imagen es demasiado grande.''))
         \<and> (json_limit < body_size rq \<longrightarrow>
              post_analyze JSON_parse create rq = RefusedByParser 413)
         \<and> (4194286 < length s \<and> length s + 18 \<le> body_size rq \<longrightarrow>
              post_analyze JSON_parse create rq = RefusedByParser 413)"
  by (simp add: post_analyze_def json_limit_value analyze_too_large [OF assms])

text \<open>
  The amended C3 at a string of 4,000,001 letters in a body of 4,000,019 bytes.
\<close>

theorem oversized_image_within_limit_is_rejected_witness:
  "get_prop (body_json \<lparr>body_size = 4000019,
                         body_json = JObj [(asc ''imageBase64'', JStr (replicate 4000001 0x41))]\<rparr>)
     (asc ''imageBase64'') = JStr (replicate 4000001 0x41)
   \<and> 4000000 < length (replicate 4000001 (0x41 :: 16 word))
   \<and> body_size \<lparr>body_size = 4000019,
                  body_json = JObj [(asc ''imageBase64'', JStr (replicate 4000001 0x41))]\<rparr>
       \<le> json_limit
   \<and> post_analyze JSON_parse_sample (create_returning (text_response ''{}''))
         \<lparr>body_size = 4000019,
          body_json = JObj [(asc ''imageBase64'', JStr (replicate 4000001 0x41))]\<rparr>
       = Handled (error_reply 400 ''La imagen es demasiado grande.'', \<lparr>calls = [], logs = []\<rparr>)"
  using oversized_image_within_limit_is_rejected
          [of "\<lparr>body_size = 4000019,
                body_json = JObj [(asc ''imageBase64'', JStr (replicate 4000001 0x41))]\<rparr>"
              "replicate 4000001 0x41" JSON_parse_sample
              "create_returning (text_response ''{}'')"]
  by (simp add: json_limit_value)

subsection \<open>Answers of the provider that cannot be used\<close>

text \<open>
  C4, as stated, fails where the first text block of the response is not its first
  content item: the sample response opens with a reasoning item and carries its text
  block, with a text that parses, in the second output item. The handler does not look
  for it; it reads \<^verbatim>\<open>output[0].content[0]\<close>, finds \<^verbatim>\<open>undefined\<close> and answers 500.
\<close>

theorem first_text_block_is_not_sought:
  "text_blocks reasoning_first_response
     = [obj [(''type'', str ''output_text''), (''text'', str ''{}'')]]
   \<and> JSON_parse_sample
         (get_prop (obj [(''type'', str ''output_text''), (''text'', str ''{}'')]) (asc ''text''))
       = Some (JObj [])
   \<and> analyze JSON_parse_sample (create_returning reasoning_first_response) sample_body
       = (error_reply 500 ''Formato inesperado de respuesta del modelo.'',
          \<lparr>calls = [create_args buildPhotoPrompt
                       (JStr (asc ''data:image/png;base64,iVBORw0KGgo=''))],
           logs = [(asc ''Formato inesperado de respuesta:'',
                    LogValue reasoning_first_response)]\<rparr>)"
  by (simp add: text_blocks_reasoning_first content_of_reasoning_first is_text_block_def
        analyze_accepted [OF sample_image sample_image_nonempty sample_image_short])

text \<open>
  C4, amended: the handler reads the first content item of the first output item of the
  response. When that item is a text block, its text is what is parsed (and the answer
  is the parsed value, or the 500 of the parse failure). When it is not, and so in
  particular for every envelope that contains no text block at all, the handler answers
  500 with a body \<^verbatim>\<open>{ error: string }\<close>; nothing is thrown out of the handler.
\<close>

theorem first_content_item_decides:
  assumes "get_prop req_body (asc ''imageBase64'') = JStr s"
    and "s \<noteq> []" and "length s \<le> 4000000"
    and "create (create_args buildPhotoPrompt (JStr s)) = Inr response"
  shows "(\<forall>content. content_of response = Inr content \<and> is_text_block content \<longrightarrow>
            fst (analyze JSON_parse create req_body)
              = (case JSON_parse (get_prop content (asc ''text'')) of
                   None \<Rightarrow> error_reply 500 ''No se ha podido interpretar la respuesta de la IA.''
                 | Some parsed \<Rightarrow> json_reply 200 parsed))
         \<and> ((\<forall>content. content_of response = Inr content \<longrightarrow> \<not> is_text_block content) \<longrightarrow>
              status (fst (analyze JSON_parse create req_body)) = 500
              \<and> is_error_body (body (fst (analyze JSON_parse create req_body))))
         \<and> (text_blocks response = [] \<longrightarrow>
              status (fst (analyze JSON_parse create req_body)) = 500
              \<and> is_error_body (body (fst (analyze JSON_parse create req_body))))"
proof -
  note run = analyze_accepted [OF assms(1-3), of JSON_parse create]
  have extracted: "fst (analyze JSON_parse create req_body)
              = (case JSON_parse (get_prop content (asc ''text'')) of
                   None \<Rightarrow> error_reply 500 ''No se ha podido interpretar la respuesta de la IA.''
                 | Some parsed \<Rightarrow> json_reply 200 parsed)"
    if "content_of response = Inr content" and "is_text_block content" for content
    using that assms(4) by (simp add: run split: option.splits)
  have unusable: "status (fst (analyze JSON_parse create req_body)) = 500
              \<and> is_error_body (body (fst (analyze JSON_parse create req_body)))"
    if "\<forall>content. content_of response = Inr content \<longrightarrow> \<not> is_text_block content"
    using that assms(4) by (simp add: run split: sum.splits)
  have "\<forall>content. content_of response = Inr content \<longrightarrow> \<not> is_text_block content"
    if "text_blocks response = []"
    using that no_text_block_content by blast
  with extracted unusable show ?thesis
    by blast
qed

text \<open>
  The amended C4 at a response whose only content item is a refusal, and at a response
  with a text block.
\<close>

theorem first_content_item_decides_witness:
  "text_blocks refusal_response = []
   \<and> status (fst (analyze JSON_parse_sample (create_returning refusal_response) sample_body)) = 500
   \<and> is_error_body
        (body (fst (analyze JSON_parse_sample (create_returning refusal_response) sample_body)))
   \<and> content_of (text_response ''{}'')
       = Inr (obj [(''type'', str ''output_text''), (''text'', str ''{}'')])
   \<and> is_text_block (obj [(''type'', str ''output_text''), (''text'', str ''{}'')])
   \<and> fst (analyze JSON_parse_sample (create_returning (text_response ''{}'')) sample_body)
       = json_reply 200 (JObj [])"
proof -
  have "status (fst (analyze JSON_parse_sample (create_returning refusal_response) sample_body))
          = 500
        \<and> is_error_body
            (body (fst (analyze JSON_parse_sample (create_returning refusal_response)
                          sample_body)))"
    using first_content_item_decides
            [OF sample_image sample_image_nonempty sample_image_short,
             where create = "create_returning refusal_response"
               and response = refusal_response and JSON_parse = JSON_parse_sample]
          text_blocks_refusal
    by simp
  moreover have "fst (analyze JSON_parse_sample (create_returning (text_response ''{}''))
                        sample_body) = json_reply 200 (JObj [])"
    using first_content_item_decides
            [OF sample_image sample_image_nonempty sample_image_short,
             where create = "create_returning (text_response ''{}'')"
               and response = "text_response ''{}''" and JSON_parse = JSON_parse_sample]
    by simp
  ultimately show ?thesis
    by (simp add: text_blocks_refusal)
qed

text \<open>
  C5: for every accepted request and every provider response whose extracted text block
  carries a text that \<^verbatim>\<open>JSON.parse\<close> rejects, the handler answers 500 with the fixed
  error body of the parse failure, nothing of the text is forwarded, and the failure is
  logged.
\<close>

theorem invalid_json_is_rejected:
  assumes "get_prop req_body (asc ''imageBase64'') = JStr s"
    and "s \<noteq> []" and "length s \<le> 4000000"
    and "create (create_args buildPhotoPrompt (JStr s)) = Inr response"
    and "content_of response = Inr content" and "is_text_block content"
    and "JSON_parse (get_prop content (asc ''text'')) = None"
  shows "fst (analyze JSON_parse create req_body)
           = error_reply 500 ''No se ha podido interpretar la respuesta de la IA.''
         \<and> status (fst (analyze JSON_parse create req_body)) = 500
         \<and> is_error_body (body (fst (analyze JSON_parse create req_body)))
         \<and> logs (snd (analyze JSON_parse create req_body))
             = [(asc ''Error parseando JSON devuelto por el modelo:'', LogThrown SyntaxError)]"
  using assms(4-7) by (simp add: analyze_accepted [OF assms(1-3)])

text \<open>
  C5 at a response with the text \<^verbatim>\<open>{oops\<close>.
\<close>

theorem invalid_json_is_rejected_witness:
  "get_prop sample_body (asc ''imageBase64'') = JStr (asc ''data:image/png;base64,iVBORw0KGgo='')
   \<and> asc ''data:image/png;base64,iVBORw0KGgo='' \<noteq> []
   \<and> length (asc ''data:image/png;base64,iVBORw0KGgo='') \<le> 4000000
   \<and> create_returning (text_response ''{oops'')
         (create_args buildPhotoPrompt (JStr (asc ''data:image/png;base64,iVBORw0KGgo='')))
       = Inr (text_response ''{oops'')
   \<and> content_of (text_response ''{oops'')
       = Inr (obj [(''type'', str ''output_text''), (''text'', str ''{oops'')])
   \<and> is_text_block (obj [(''type'', str ''output_text''), (''text'', str ''{oops'')])
   \<and> JSON_parse_sample
         (get_prop (obj [(''type'', str ''output_text''), (''text'', str ''{oops'')]) (asc ''text''))
       = None
   \<and> fst (analyze JSON_parse_sample (create_returning (text_response ''{oops'')) sample_body)
       = error_reply 500 ''No se ha podido interpretar la respuesta de la IA.''"
proof -
  have unparsed: "JSON_parse_sample
         (get_prop (obj [(''type'', str ''output_text''), (''text'', str ''{oops'')]) (asc ''text''))
       = None"
    by simp
  show ?thesis
    using sample_image sample_image_nonempty sample_image_short unparsed
      invalid_json_is_rejected
        [where req_body = sample_body and s = "asc ''data:image/png;base64,iVBORw0KGgo=''"
           and JSON_parse = JSON_parse_sample
           and create = "create_returning (text_response ''{oops'')"
           and response = "text_response ''{oops''"
           and content = "obj [(''type'', str ''output_text''), (''text'', str ''{oops'')]"]
    by simp
qed

subsection \<open>Failures\<close>

text \<open>
  C6: the handler always answers. Whenever the answer is not the 200 of a parsed
  provider text, its status is 400 or 500 and its body is \<^verbatim>\<open>{ error: msg }\<close> with
  \<open>msg\<close> one of the five fixed messages, so nothing of the request, of the provider's
  response or of a thrown error is in it. Whatever is thrown inside the \<^verbatim>\<open>try\<close> block
  ends in the 500 of the \<^verbatim>\<open>catch\<close> with its generic message. An answer of 200 is given
  only on the path where the provider returned a text block and its text parsed.
\<close>

theorem failures_answer_fixed_errors:
  "(status (fst (analyze JSON_parse create req_body)) \<noteq> 200 \<longrightarrow>
      (status (fst (analyze JSON_parse create req_body)) = 400
       \<or> status (fst (analyze JSON_parse create req_body)) = 500)
      \<and> is_error_body (body (fst (analyze JSON_parse create req_body)))
      \<and> (\<exists>msg \<in> set error_messages.
            body (fst (analyze JSON_parse create req_body)) = obj [(''error'', str msg)]))
   \<and> (\<forall>err eff. analyze_try JSON_parse create req_body = (Inl err, eff) \<longrightarrow>
         fst (analyze JSON_parse create req_body)
           = error_reply 500 ''Error interno analizando la imagen.'')
   \<and> (status (fst (analyze JSON_parse create req_body)) = 200 \<longrightarrow>
        (\<exists>s response content.
           get_prop req_body (asc ''imageBase64'') = JStr s \<and> s \<noteq> [] \<and> length s \<le> 4000000
           \<and> create (create_args buildPhotoPrompt (JStr s)) = Inr response
           \<and> content_of response = Inr content \<and> is_text_block content
           \<and> JSON_parse (get_prop content (asc ''text''))
               = Some (body (fst (analyze JSON_parse create req_body)))))"
proof -
  have thrown: "\<forall>err eff. analyze_try JSON_parse create req_body = (Inl err, eff) \<longrightarrow>
         fst (analyze JSON_parse create req_body)
           = error_reply 500 ''Error interno analizando la imagen.''"
    using analyze_thrown by blast
  from reply_analyze [of JSON_parse create req_body] show ?thesis
  proof (elim disjE bexE exE conjE)
    fix msg
    assume "msg \<in> set error_messages"
      and "fst (analyze JSON_parse create req_body) = error_reply 400 msg"
    with thrown show ?thesis by auto
  next
    fix msg
    assume "msg \<in> set error_messages"
      and "fst (analyze JSON_parse create req_body) = error_reply 500 msg"
    with thrown show ?thesis by auto
  next
    fix s response content parsed
    assume "get_prop req_body (asc ''imageBase64'') = JStr s" "s \<noteq> []" "length s \<le> 4000000"
      "create (create_args buildPhotoPrompt (JStr s)) = Inr response"
      "content_of response = Inr content" "is_text_block content"
      "JSON_parse (get_prop content (asc ''text'')) = Some parsed"
      "fst (analyze JSON_parse create req_body) = json_reply 200 parsed"
    with thrown show ?thesis by auto
  qed
qed

text \<open>
  C6 at a call of the provider that is rejected.
\<close>

theorem failures_answer_fixed_errors_witness:
  "status (fst (analyze JSON_parse_sample create_failing sample_body)) \<noteq> 200
   \<and> status (fst (analyze JSON_parse_sample create_failing sample_body)) = 500
   \<and> is_error_body (body (fst (analyze JSON_parse_sample create_failing sample_body)))
   \<and> fst (analyze_try JSON_parse_sample create_failing sample_body)
       = Inl (OtherError (obj [(''status'', str ''503'')]))
   \<and> fst (analyze JSON_parse_sample create_failing sample_body)
       = error_reply 500 ''Error interno analizando la imagen.''"
proof -
  have failed: "status (fst (analyze JSON_parse_sample create_failing sample_body)) \<noteq> 200"
    by (simp add: analyze_sample_failing)
  obtain eff where thrown:
    "analyze_try JSON_parse_sample create_failing sample_body
       = (Inl (OtherError (obj [(''status'', str ''503'')])), eff)"
    using analyze_try_sample_failing by (metis prod.collapse)
  note fact = failures_answer_fixed_errors [of JSON_parse_sample create_failing sample_body]
  from fact failed have
    "status (fst (analyze JSON_parse_sample create_failing sample_body)) = 400
       \<or> status (fst (analyze JSON_parse_sample create_failing sample_body)) = 500"
    and err: "is_error_body (body (fst (analyze JSON_parse_sample create_failing sample_body)))"
    by blast+
  moreover from fact thrown have reply:
    "fst (analyze JSON_parse_sample create_failing sample_body)
       = error_reply 500 ''Error interno analizando la imagen.''"
    by blast
  ultimately show ?thesis
    using failed analyze_try_sample_failing by simp
qed

subsection \<open>The outbound call\<close>

text \<open>
  C7: the text portion of the outbound message is the same for any two invocations,
  whatever their requests, their provider and their parser: it is the one content part
  of type \<^verbatim>\<open>input_text\<close> carrying \<open>buildPhotoPrompt\<close>, which takes no argument.
\<close>

theorem prompt_is_constant:
  "\<forall>args \<in> set (calls (snd (analyze JSON_parse create req_body))).
     \<forall>args' \<in> set (calls (snd (analyze JSON_parse' create' req_body'))).
       non_image_parts args = non_image_parts args'
       \<and> non_image_parts args
           = [obj [(''type'', str ''input_text''), (''text'', JStr buildPhotoPrompt)]]"
  by (auto dest!: call_is_create_args simp: non_image_parts_create_args)

text \<open>
  C7 at two requests with different images.
\<close>

theorem prompt_is_constant_witness:
  "calls (snd (analyze JSON_parse_sample (create_returning (text_response ''{}'')) sample_body))
     = [create_args buildPhotoPrompt (JStr (asc ''data:image/png;base64,iVBORw0KGgo=''))]
   \<and> calls (snd (analyze JSON_parse_sample create_failing other_body))
       = [create_args buildPhotoPrompt (JStr (asc ''data:image/jpeg;base64,/9j/4AAQ''))]
   \<and> asc ''data:image/png;base64,iVBORw0KGgo='' \<noteq> asc ''data:image/jpeg;base64,/9j/4AAQ''
   \<and> non_image_parts
         (create_args buildPhotoPrompt (JStr (asc ''data:image/png;base64,iVBORw0KGgo='')))
       = non_image_parts
           (create_args buildPhotoPrompt (JStr (asc ''data:image/jpeg;base64,/9j/4AAQ'')))"
proof -
  have "non_image_parts
         (create_args buildPhotoPrompt (JStr (asc ''data:image/png;base64,iVBORw0KGgo='')))
       = non_image_parts
           (create_args buildPhotoPrompt (JStr (asc ''data:image/jpeg;base64,/9j/4AAQ'')))"
    using prompt_is_constant
            [of JSON_parse_sample "create_returning (text_response ''{}'')" sample_body
                JSON_parse_sample create_failing other_body]
    by (simp add: calls_sample calls_other)
  then show ?thesis
    by (simp add: calls_sample calls_other)
qed

text \<open>
  C8: the schema object of the code is the schema of the result type of the
  specification, with the same fields, nesting and types and with every field listed
  under \<^verbatim>\<open>required\<close> at every level; it is sent under \<^verbatim>\<open>json_schema.schema\<close> with
  \<^verbatim>\<open>strict: true\<close> in every call of the provider. (The schema object itself has no
  \<^verbatim>\<open>additionalProperties\<close> key; refusing further properties is left to the
  provider's strict mode.)
\<close>

theorem schema_declares_the_result:
  "photo_schema = spec_schema_of spec_EvaluationResult
   \<and> all_required photo_schema
   \<and> get_prop response_format (asc ''type'') = str ''json_schema''
   \<and> get_prop (get_prop response_format (asc ''json_schema'')) (asc ''schema'') = photo_schema
   \<and> get_prop (get_prop response_format (asc ''json_schema'')) (asc ''strict'') = JBool True
   \<and> (\<forall>args \<in> set (calls (snd (analyze JSON_parse create req_body))).
         get_prop args (asc ''response_format'') = response_format)"
  using schema_is_spec_schema schema_all_required response_format_parts
  by (auto dest!: call_is_create_args simp: response_format_create_args)

text \<open>
  C8 at the call made for the sample request.
\<close>

theorem schema_declares_the_result_witness:
  "calls (snd (analyze JSON_parse_sample (create_returning (text_response ''{}'')) sample_body))
     = [create_args buildPhotoPrompt (JStr (asc ''data:image/png;base64,iVBORw0KGgo=''))]
   \<and> get_prop (get_prop (get_prop
         (create_args buildPhotoPrompt (JStr (asc ''data:image/png;base64,iVBORw0KGgo='')))
         (asc ''response_format'')) (asc ''json_schema'')) (asc ''schema'')
       = spec_schema_of spec_EvaluationResult
   \<and> get_prop (get_prop (get_prop
         (create_args buildPhotoPrompt (JStr (asc ''data:image/png;base64,iVBORw0KGgo='')))
         (asc ''response_format'')) (asc ''json_schema'')) (asc ''strict'')
       = JBool True"
proof -
  note fact = schema_declares_the_result
                [of JSON_parse_sample "create_returning (text_response ''{}'')" sample_body]
  from fact have "get_prop
         (create_args buildPhotoPrompt (JStr (asc ''data:image/png;base64,iVBORw0KGgo='')))
         (asc ''response_format'') = response_format"
    by (simp add: calls_sample)
  with fact show ?thesis
    by (simp add: calls_sample)
qed

text \<open>
  C9, as stated, fails twice. A request that validation rejects makes no call of the
  provider at all (here the body \<^verbatim>\<open>{}\<close>); and a rejected call of the provider is
  logged by the \<^verbatim>\<open>catch\<close>, which is neither an unexpected response shape nor a parse
  failure.
\<close>

theorem rejected_request_makes_no_call:
  "length (calls (snd (analyze JSON_parse_sample (create_returning (text_response ''{}''))
                         (obj [])))) = 0
   \<and> logs (snd (analyze JSON_parse_sample create_failing sample_body))
       = [(asc ''Error en /analyze:'',
           LogThrown (OtherError (obj [(''status'', str ''503'')])))]"
  by (simp add: analyze_sample_failing analyze_missing)

text \<open>
  C9, amended: an invocation calls the provider's client
  (\<^verbatim>\<open>client.responses.create\<close>) at most once: exactly once, with the prompt and the
  image, when \<^verbatim>\<open>imageBase64\<close> is a non-empty string of at most 4,000,000 code units,
  and not at all otherwise. Its only other effect is at most one \<^verbatim>\<open>console.error\<close>
  entry, written exactly in these cases: the first content item of the response is not a
  text block (unexpected response), \<^verbatim>\<open>JSON.parse\<close> rejects the text (parse failure),
  or something is thrown inside the \<^verbatim>\<open>try\<close> block and caught (a body that cannot be
  read, a rejected call of the client, a response that is \<^verbatim>\<open>null\<close>). An answer of 200
  or 400 logs nothing.
\<close>

theorem calls_and_logs_of_an_invocation:
  "calls (snd (analyze JSON_parse create req_body))
     = (case get_prop req_body (asc ''imageBase64'') of
          JStr s \<Rightarrow>
            if s \<noteq> [] \<and> length s \<le> 4000000 then [create_args buildPhotoPrompt (JStr s)] else []
        | _ \<Rightarrow> [])
   \<and> length (calls (snd (analyze JSON_parse create req_body))) \<le> 1
   \<and> logs (snd (analyze JSON_parse create req_body))
       = (if nullish req_body then [(asc ''Error en /analyze:'', LogThrown TypeError)]
          else
            (case get_prop req_body (asc ''imageBase64'') of
               JStr s \<Rightarrow>
                 if s \<noteq> [] \<and> length s \<le> 4000000 then
                   (case create (create_args buildPhotoPrompt (JStr s)) of
                      Inl e \<Rightarrow> [(asc ''Error en /analyze:'', LogThrown e)]
                    | Inr response \<Rightarrow>
                        (case content_of response of
                           Inl e \<Rightarrow> [(asc ''Error en /analyze:'', LogThrown e)]
                         | Inr content \<Rightarrow>
                             if \<not> is_text_block content then
                               [(asc ''Formato inesperado de respuesta:'', LogValue response)]
                             else
                               (case JSON_parse (get_prop content (asc ''text'')) of
                                  None \<Rightarrow>
                                    [(asc ''Error parseando JSON devuelto por el modelo:'',
                                      LogThrown SyntaxError)]
                                | Some parsed \<Rightarrow> [])))
                 else []
             | _ \<Rightarrow> []))
   \<and> length (logs (snd (analyze JSON_parse create req_body))) \<le> 1
   \<and> (status (fst (analyze JSON_parse create req_body)) = 200
        \<or> status (fst (analyze JSON_parse create req_body)) = 400
       \<longrightarrow> logs (snd (analyze JSON_parse create req_body)) = [])"
proof -
  have "length (calls (snd (analyze JSON_parse create req_body))) \<le> 1"
    by (simp add: calls_analyze split: jsval.splits)
  moreover have "length (logs (snd (analyze JSON_parse create req_body))) \<le> 1"
    using logs_analyze by blast
  ultimately show ?thesis
    using calls_analyze [of JSON_parse create req_body]
      logs_analyze_exact [of JSON_parse create req_body]
      quiet_answers [of JSON_parse create req_body]
    by blast
qed

text \<open>
  The amended C9 at a rejected call of the client, at the body \<^verbatim>\<open>{}\<close>, and at an
  answer that is forwarded.
\<close>

theorem calls_and_logs_of_an_invocation_witness:
  "calls (snd (analyze JSON_parse_sample create_failing sample_body))
     = [create_args buildPhotoPrompt (JStr (asc ''data:image/png;base64,iVBORw0KGgo=''))]
   \<and> logs (snd (analyze JSON_parse_sample create_failing sample_body))
       = [(asc ''Error en /analyze:'',
           LogThrown (OtherError (obj [(''status'', str ''503'')])))]
   \<and> calls (snd (analyze JSON_parse_sample (create_returning (text_response ''{}'')) (obj [])))
       = []
   \<and> status (fst (analyze JSON_parse_sample (create_returning (text_response ''{}'')) (obj [])))
       = 400
   \<and> logs (snd (analyze JSON_parse_sample (create_returning (text_response ''{}'')) (obj [])))
       = []
   \<and> status (fst (analyze JSON_parse_sample (create_returning (text_response ''{}''))
                    sample_body)) = 200
   \<and> logs (snd (analyze JSON_parse_sample (create_returning (text_response ''{}''))
                   sample_body)) = []"
proof -
  have rejected: "status (fst (analyze JSON_parse_sample (create_returning (text_response ''{}''))
                                 (obj []))) = 400"
    by (simp add: analyze_missing)
  have forwarded: "status (fst (analyze JSON_parse_sample (create_returning (text_response ''{}''))
                                  sample_body)) = 200"
    by (simp add: analyze_accepted [OF sample_image sample_image_nonempty sample_image_short])
  have "logs (snd (analyze JSON_parse_sample (create_returning (text_response ''{}''))
                     (obj []))) = []"
    using calls_and_logs_of_an_invocation
            [of JSON_parse_sample "create_returning (text_response ''{}'')" "obj []"] rejected
    by blast
  moreover have "logs (snd (analyze JSON_parse_sample (create_returning (text_response ''{}''))
                     sample_body)) = []"
    using calls_and_logs_of_an_invocation
            [of JSON_parse_sample "create_returning (text_response ''{}'')" sample_body] forwarded
    by blast
  moreover have "calls (snd (analyze JSON_parse_sample (create_returning (text_response ''{}''))
                               (obj []))) = []"
    by (simp add: analyze_missing)
  ultimately show ?thesis
    using rejected forwarded by (simp add: analyze_sample_failing)
qed

subsection \<open>The size ceiling\<close>

text \<open>
  C10: the ceiling is exclusive. A request whose \<^verbatim>\<open>imageBase64\<close> is a string of
  exactly 4,000,000 code units passes the size check: the provider is called with it, and
  the answer is never 400.
\<close>

theorem ceiling_length_is_accepted:
  assumes "get_prop req_body (asc ''imageBase64'') = JStr s" and "length s = 4000000"
  shows "calls (snd (analyze JSON_parse create req_body)) = [create_args buildPhotoPrompt (JStr s)]
         \<and> status (fst (analyze JSON_parse create req_body)) \<noteq> 400"
proof -
  have "s \<noteq> []" and "length s \<le> 4000000"
    using assms(2) by auto
  then show ?thesis
    by (simp add: analyze_accepted [OF assms(1)] split: sum.splits option.splits)
qed

text \<open>
  C10 at a string of 4,000,000 code units.
\<close>

theorem ceiling_length_is_accepted_witness:
  "get_prop (JObj [(asc ''imageBase64'', JStr (replicate 4000000 0x41))]) (asc ''imageBase64'')
     = JStr (replicate 4000000 0x41)
   \<and> length (replicate 4000000 (0x41 :: 16 word)) = 4000000
   \<and> calls (snd (analyze JSON_parse_sample (create_returning (text_response ''{}''))
                    (JObj [(asc ''imageBase64'', JStr (replicate 4000000 0x41))])))
       = [create_args buildPhotoPrompt (JStr (replicate 4000000 0x41))]
   \<and> status (fst (analyze JSON_parse_sample (create_returning (text_response ''{}''))
                    (JObj [(asc ''imageBase64'', JStr (replicate 4000000 0x41))]))) \<noteq> 400"
  using ceiling_length_is_accepted
          [of "JObj [(asc ''imageBase64'', JStr (replicate 4000000 0x41))]"
              "replicate 4000000 0x41" JSON_parse_sample
              "create_returning (text_response ''{}'')"]
  by simp

end
